theory Spec2Isabelle
  imports Complex_Main
begin

section \<open>Python values, exceptions and outcomes\<close>

text \<open>
  The values a dictionary handed to \<open>log_dict\<close> can hold. \<open>PyObject\<close> stands for an
  object of any other class (a pandas Timestamp, say), named by its class; such an
  object is not JSON serialisable.
\<close>

datatype pyval =
    PyNone
  | PyBool bool
  | PyInt int
  | PyFloat real
  | PyStr string
  | PyList "pyval list"
  | PyDict "(string \<times> pyval) list"
  | PyObject string

text \<open>\<open>isinstance(value, (int, float))\<close>: \<open>bool\<close> is a subclass of \<open>int\<close>.\<close>

fun is_int_or_float :: "pyval \<Rightarrow> bool" where
  "is_int_or_float (PyBool b) = True"
| "is_int_or_float (PyInt i) = True"
| "is_int_or_float (PyFloat x) = True"
| "is_int_or_float v = False"

text \<open>\<open>isinstance(value, str)\<close>.\<close>

fun is_str :: "pyval \<Rightarrow> bool" where
  "is_str (PyStr s) = True"
| "is_str v = False"

text \<open>Whether \<open>json.dumps(value)\<close> returns; it raises \<open>TypeError\<close> otherwise.\<close>

fun json_serialisable :: "pyval \<Rightarrow> bool" where
  "json_serialisable (PyObject c) = False"
| "json_serialisable (PyList vs) = list_all json_serialisable vs"
| "json_serialisable (PyDict kvs) = list_all (\<lambda>kv. json_serialisable (snd kv)) kvs"
| "json_serialisable v = True"

text \<open>
  The exceptions the code raises itself or provokes (an attribute read on \<open>None\<close>,
  \<open>json.dumps\<close> on an object), and \<open>OtherError\<close> for one raised by a collaborator or by
  the caller's code, with its class name and message.
\<close>

datatype error =
    FileNotFoundError string
  | ValueError string
  | AttributeError string
  | TypeError string
  | OtherError string string

fun error_kind :: "error \<Rightarrow> string" where
  "error_kind (FileNotFoundError m) = ''FileNotFoundError''"
| "error_kind (ValueError m) = ''ValueError''"
| "error_kind (AttributeError m) = ''AttributeError''"
| "error_kind (TypeError m) = ''TypeError''"
| "error_kind (OtherError c m) = c"

fun str_error :: "error \<Rightarrow> string" where
  "str_error (FileNotFoundError m) = m"
| "str_error (ValueError m) = m"
| "str_error (AttributeError m) = m"
| "str_error (TypeError m) = m"
| "str_error (OtherError c m) = m"

datatype 'a outcome = Normal 'a | Raised error

fun raised_kind :: "'a outcome \<Rightarrow> string option" where
  "raised_kind (Normal x) = None"
| "raised_kind (Raised e) = Some (error_kind e)"

section \<open>Paths\<close>

text \<open>
  A \<open>pathlib.Path\<close>, given by the parts pathlib splits it into: the components of
  the parent directory, and the stem and the suffix of the final component
  (\<open>path.name == path.stem + path.suffix\<close>).
\<close>

record path =
  parent_parts :: "string list"
  stem :: string
  suffix :: string

definition name :: "path \<Rightarrow> string" where
  "name p = stem p @ suffix p"

text \<open>\<open>path.parent.name\<close>: the last component of the parent, empty when there is none.\<close>

definition parent_name :: "path \<Rightarrow> string" where
  "parent_name p = (case rev (parent_parts p) of [] \<Rightarrow> [] | d # ds \<Rightarrow> d)"

definition str_path :: "path \<Rightarrow> string" where
  "str_path p = concat (map (\<lambda>d. d @ ''/'') (parent_parts p)) @ name p"

text \<open>\<open>str.lower\<close> on ASCII text.\<close>

definition lower_char :: "char \<Rightarrow> char" where
  "lower_char c =
     (let n = (of_char c :: nat) in if 65 \<le> n \<and> n \<le> 90 then char_of (n + 32) else c)"

definition lower :: "string \<Rightarrow> string" where
  "lower s = map lower_char s"

text \<open>\<open>os.path.join\<close> of two parts on a POSIX system.\<close>

definition os_path_join :: "string \<Rightarrow> string \<Rightarrow> string" where
  "os_path_join a b =
     (case b of
        c # cs \<Rightarrow>
          if c = CHR ''/'' then b
          else if a = [] \<or> last a = CHR ''/'' then a @ b
          else a @ ''/'' @ b
      | [] \<Rightarrow> if a = [] \<or> last a = CHR ''/'' then a else a @ ''/'')"

section \<open>The world: the tracking backend, the log sink, the filesystem\<close>

text \<open>A pandas DataFrame read with \<open>orient="records"\<close>: its rows, each a dictionary.\<close>

type_synonym row = "(string \<times> pyval) list"
type_synonym table = "row list"

record dataset =
  ds_data :: table
  ds_source :: string
  ds_name :: string

datatype level = INFO | WARNING | ERROR

text \<open>
  The second argument of \<open>mlflow.log_param\<close>: the value itself, or the string
  \<open>json.dumps(value)\<close>, kept as the value it encodes.
\<close>

datatype param_value = Plain pyval | JsonDumps pyval

text \<open>
  Every call the code makes on a collaborator, in the order made: the log sink (level,
  message, arguments), dotenv, the tracking SDK, and the temporary directory of a
  template artifact.
\<close>

datatype effect =
    Log level string "string list"
  | LoadDotenv
  | SetTrackingUri string
  | EnableAsyncLogging
  | OpenaiAutolog
  | LogMetric string pyval
  | LogParam string param_value
  | LogTable table string
  | LogArtifact string string
  | LogInput dataset
  | SetExperiment string
  | StartRun string
  | SetTag string string
  | EndRun
  | MakeTempDir string
  | WriteText string string
  | RemoveTempDir string

text \<open>
  The state the code acts on: the calls made so far, and the run the tracking SDK
  holds active (\<open>mlflow.active_run()\<close> is \<open>None\<close> when there is none). A call on the SDK
  is recorded and returns; the SDK's own failures are outside this model.
\<close>

record world =
  effects :: "effect list"
  active_run :: "string option"

definition emit :: "effect \<Rightarrow> world \<Rightarrow> world" where
  "emit e w = w\<lparr>effects := effects w @ [e]\<rparr>"

text \<open>
  What the code reads from outside: the filesystem, the pandas readers (which raise on
  a file they cannot parse), the clock, the random UUID, the host, the installed
  package metadata and the git checkout.
\<close>

record env =
  path_exists :: "path \<Rightarrow> bool"
  read_json :: "path \<Rightarrow> error + table"
  read_csv :: "path \<Rightarrow> error + table"
  read_parquet :: "path \<Rightarrow> error + table"
  read_text :: "path \<Rightarrow> error + string"
  temp_dir :: string
  now_strftime :: string
  now_isoformat :: string
  uuid4_hex :: string
  new_run_id :: string
  nodename :: string
  package_version :: "string \<Rightarrow> string option"
  git_head :: "(string \<times> string) option"

section \<open>utils/experiment\_logger.py: MlflowLogger.log\_dict\<close>

text \<open>
  The loop over \<open>data.items()\<close>. The method reads nothing of \<open>self\<close> and makes no check
  of the active run.
\<close>

fun log_dict :: "(string \<times> pyval) list \<Rightarrow> world \<Rightarrow> unit outcome \<times> world" where
  "log_dict [] w = (Normal (), w)"
| "log_dict ((key, v) # items) w =
     (if is_int_or_float v then log_dict items (emit (LogMetric key v) w)
      else if is_str v then log_dict items (emit (LogParam key (Plain v)) w)
      else if json_serialisable v then log_dict items (emit (LogParam key (JsonDumps v)) w)
      else (Raised (TypeError ''Object is not JSON serializable''), w))"

section \<open>utils/experiment\_logger.py: MlflowLogger.log\_experiment\_data\<close>

text \<open>
  The settings of the logger (utils/configs.py, \<open>MlflowLoggerConfig\<close>). The class
  allows extra keys; \<open>experiment_name\<close> and \<open>project_name\<close>, which the logger
  reads, are not declared fields and are found among the extras or not at all.
\<close>

record mlflow_logger_config =
  tracking_uri :: "string option"
  remote_tracking_uri :: "string option"
  instance_name :: string
  remote_flag :: bool
  trace :: bool
  templates_path :: path
  artifact_path :: string
  run_name :: "string option"
  extras :: "(string \<times> string) list"

text \<open>The fields \<open>__init__\<close> sets on the logger.\<close>

record mlflow_logger =
  self_config :: mlflow_logger_config
  self_experiment_name :: string
  self_run_name :: "string option"
  self_artifact_path :: string
  self_templates_path :: path

text \<open>
  \<open>_log_jinja_templates\<close>: the template is read and written unchanged to
  \<open><temp_dir>/<name>.txt\<close>, which is logged as an artifact; the temporary directory
  is removed when its \<open>with\<close> block ends, also when reading raises.
\<close>

definition log_jinja_templates ::
    "env \<Rightarrow> mlflow_logger \<Rightarrow> path \<Rightarrow> world \<Rightarrow> unit outcome \<times> world" where
  "log_jinja_templates en self file_path w =
     (if path_exists en file_path then
        let w1 = emit (Log INFO ''Logging template from: %s'' [str_path file_path]) w;
            w2 = emit (MakeTempDir (temp_dir en)) w1;
            dest_path = os_path_join (temp_dir en) (name file_path @ ''.txt'')
        in (case read_text en file_path of
              Inl e \<Rightarrow> (Raised e, emit (RemoveTempDir (temp_dir en)) w2)
            | Inr content \<Rightarrow>
                let w3 = emit (WriteText dest_path content) w2;
                    w4 = emit (LogArtifact dest_path
                           (os_path_join (self_artifact_path self) (parent_name file_path))) w3
                in (Normal (), emit (RemoveTempDir (temp_dir en)) w4))
      else (Normal (), w))"

text \<open>
  The \<open>try\<close> block of the \<open>.json\<close> branch. The result is \<open>True\<close> when the block
  executes its \<open>return\<close>; it is \<open>False\<close> when the block ends without it, or when
  \<open>except BaseException\<close> catches an exception of \<open>pd.read_json\<close> or of
  \<open>log_dict\<close> and logs it.
\<close>

definition try_log_table :: "env \<Rightarrow> path \<Rightarrow> world \<Rightarrow> bool \<times> world" where
  "try_log_table en data_path w =
     (case read_json en data_path of
        Inl e \<Rightarrow>
          (False, emit (Log ERROR ''Error reading JSON file %s: %s''
                     [str_path data_path, str_error e]) w)
      | Inr df \<Rightarrow>
          let w1 = emit (LogTable df (name data_path)) w in
          (case df of
             [r] \<Rightarrow>
               (case log_dict r w1 of
                  (Normal u, w2) \<Rightarrow> (True, w2)
                | (Raised e, w2) \<Rightarrow>
                    (False, emit (Log ERROR ''Error reading JSON file %s: %s''
                               [str_path data_path, str_error e]) w2))
           | _ \<Rightarrow> (False, w1)))"

text \<open>The statements after the \<open>if\<close>/\<open>elif\<close>: the file is logged as an artifact.\<close>

definition log_file_artifact :: "mlflow_logger \<Rightarrow> path \<Rightarrow> world \<Rightarrow> world" where
  "log_file_artifact self data_path w =
     emit (Log INFO ''Logged artifact: %s'' [str_path data_path])
       (emit (LogArtifact (str_path data_path)
                (os_path_join (self_artifact_path self) (parent_name data_path))) w)"

text \<open>
  One pass through the body of \<open>for data_path in data_paths\<close>. \<open>Continue\<close>: the loop
  goes on to the next path (\<open>continue\<close>, or the end of the body); \<open>Return\<close>: the
  method returns.
\<close>

datatype signal = Continue | Return

definition loop_body ::
    "env \<Rightarrow> mlflow_logger \<Rightarrow> path \<Rightarrow> world \<Rightarrow> signal outcome \<times> world" where
  "loop_body en self data_path w =
     (if \<not> path_exists en data_path then
        (Normal Continue,
         emit (Log WARNING ''Data path %s does not exist, skipping logging.''
                 [str_path data_path]) w)
      else if lower (suffix data_path) = ''.json'' then
        (case try_log_table en data_path w of
           (True, w1) \<Rightarrow> (Normal Return, w1)
         | (False, w1) \<Rightarrow> (Normal Continue, log_file_artifact self data_path w1))
      else if lower (suffix data_path) = ''.jinja2'' then
        (case log_jinja_templates en self data_path w of
           (Normal u, w1) \<Rightarrow> (Normal Return, w1)
         | (Raised e, w1) \<Rightarrow> (Raised e, w1))
      else (Normal Continue, log_file_artifact self data_path w))"

fun log_experiment_data ::
    "env \<Rightarrow> mlflow_logger \<Rightarrow> path list \<Rightarrow> world \<Rightarrow> unit outcome \<times> world" where
  "log_experiment_data en self [] w = (Normal (), w)"
| "log_experiment_data en self (data_path # data_paths) w =
     (case loop_body en self data_path w of
        (Normal Continue, w1) \<Rightarrow> log_experiment_data en self data_paths w1
      | (Normal Return, w1) \<Rightarrow> (Normal (), w1)
      | (Raised e, w1) \<Rightarrow> (Raised e, w1))"

section \<open>utils/experiment\_logger.py: MlflowLogger.log\_input\<close>

definition log_input :: "env \<Rightarrow> path \<Rightarrow> world \<Rightarrow> unit outcome \<times> world" where
  "log_input en input_path w =
     (if \<not> path_exists en input_path then
        (Raised (FileNotFoundError
           (''The input path '' @ str_path input_path @ '' does not exist.'')), w)
      else
        let w1 = emit (Log INFO ''Loading input data from %s'' [str_path input_path]) w;
            format = lower (suffix input_path)
        in (case (if format = ''.json'' then read_json en input_path
                  else if format = ''.csv'' then read_csv en input_path
                  else if format = ''.parquet'' then read_parquet en input_path
                  else Inl (ValueError (''Unsupported file format: '' @ format
                         @ ''. Only .json, .csv, and .parquet are supported.''))) of
              Inl e \<Rightarrow> (Raised e, w1)
            | Inr input_data \<Rightarrow>
                (Normal (),
                 emit (LogInput \<lparr>ds_data = input_data, ds_source = str_path input_path,
                                  ds_name = stem input_path\<rparr>) w1)))"

section \<open>utils/experiment\_logger.py: construction\<close>

text \<open>\<open>str\<close> of an optional URL, as \<open>%s\<close> formats it.\<close>

definition str_optional :: "string option \<Rightarrow> string" where
  "str_optional u = (case u of None \<Rightarrow> ''None'' | Some s \<Rightarrow> s)"

text \<open>
  \<open>url.unicode_string()\<close> on an optional URL: on \<open>None\<close> the attribute read raises
  \<open>AttributeError\<close>.
\<close>

definition unicode_string :: "string option \<Rightarrow> error + string" where
  "unicode_string u =
     (case u of
        None \<Rightarrow> Inl (AttributeError
                 ''NoneType object has no attribute unicode_string'')
      | Some s \<Rightarrow> Inr s)"

definition MlflowLogger_setup :: "mlflow_logger \<Rightarrow> world \<Rightarrow> unit outcome \<times> world" where
  "MlflowLogger_setup self w =
     (let cfg = self_config self;
          w0 = emit LoadDotenv w
      in (case (if remote_flag cfg then
                  (case unicode_string (remote_tracking_uri cfg) of
                     Inl e \<Rightarrow> Inl e
                   | Inr uri \<Rightarrow>
                       Inr (uri, emit (Log INFO ''Using remote MLflow tracking URI: %s'' [uri]) w0))
                else
                  (case unicode_string (tracking_uri cfg) of
                     Inl e \<Rightarrow> Inl e
                   | Inr uri \<Rightarrow>
                       Inr (uri, emit (Log INFO ''Using local MLflow tracking URI: %s'' [uri]) w0))) of
            Inl e \<Rightarrow> (Raised e, w0)
          | Inr (uri, w1) \<Rightarrow>
              let w2 = emit EnableAsyncLogging (emit (SetTrackingUri uri) w1);
                  w3 = (if trace cfg then
                          emit (Log INFO ''MLflow OpenAI autologging enabled.'' [])
                            (emit OpenaiAutolog w2)
                        else w2)
              in (Normal (),
                  emit (Log INFO ''MLflow logging enabled with async mode on %s''
                          [str_optional (tracking_uri cfg)]) w3)))"

text \<open>
  Reading an attribute that is not a declared field: the value among the extras, or
  \<open>AttributeError\<close>.
\<close>

definition extra_attribute :: "mlflow_logger_config \<Rightarrow> string \<Rightarrow> error + string" where
  "extra_attribute cfg attr =
     (case map_of (extras cfg) attr of
        None \<Rightarrow> Inl (AttributeError
                 (''MlflowLoggerConfig object has no attribute '' @ attr))
      | Some v \<Rightarrow> Inr v)"

definition MlflowLogger_init ::
    "mlflow_logger_config \<Rightarrow> world \<Rightarrow> mlflow_logger outcome \<times> world" where
  "MlflowLogger_init cfg w =
     (case extra_attribute cfg ''experiment_name'' of
        Inl e \<Rightarrow> (Raised e, w)
      | Inr experiment \<Rightarrow>
          let self = \<lparr>self_config = cfg, self_experiment_name = experiment,
                      self_run_name = run_name cfg, self_artifact_path = artifact_path cfg,
                      self_templates_path = templates_path cfg\<rparr>
          in (case MlflowLogger_setup self w of
                (Normal u, w1) \<Rightarrow> (Normal self, w1)
              | (Raised e, w1) \<Rightarrow> (Raised e, w1)))"

section \<open>utils/experiment\_logger.py: the run scope\<close>

definition mlflow_start_run :: "env \<Rightarrow> string \<Rightarrow> world \<Rightarrow> world" where
  "mlflow_start_run en rn w = (emit (StartRun rn) w)\<lparr>active_run := Some (new_run_id en)\<rparr>"

definition mlflow_end_run :: "world \<Rightarrow> world" where
  "mlflow_end_run w = (emit EndRun w)\<lparr>active_run := None\<rparr>"

text \<open>\<open>mlflow.active_run().info.run_id\<close>: an attribute read on \<open>None\<close> raises.\<close>

definition active_run_id :: "world \<Rightarrow> error + string" where
  "active_run_id w =
     (case active_run w of
        None \<Rightarrow> Inl (AttributeError ''NoneType object has no attribute info'')
      | Some run_id \<Rightarrow> Inr run_id)"

text \<open>
  \<open>_log_metadata\<close>. The version and the git lookups are each in a \<open>try\<close> whose
  \<open>except Exception: pass\<close> drops a failure; the two git tags are set after both
  lookups, so they are set together or not at all.
\<close>

definition log_metadata :: "env \<Rightarrow> mlflow_logger \<Rightarrow> world \<Rightarrow> unit outcome \<times> world" where
  "log_metadata en self w =
     (case extra_attribute (self_config self) ''project_name'' of
        Inl e \<Rightarrow> (Raised e, w)
      | Inr project \<Rightarrow>
          let w1 = emit (SetTag ''project_name'' project) w;
              w2 = (case package_version en project of
                      None \<Rightarrow> w1
                    | Some version \<Rightarrow> emit (SetTag ''project_version'' version) w1);
              w3 = (case git_head en of
                      None \<Rightarrow> w2
                    | Some (sha, branch) \<Rightarrow>
                        emit (SetTag ''git_branch'' branch) (emit (SetTag ''git_commit'' sha) w2));
              w4 = emit (SetTag ''run_host'' (nodename en)) w3
          in (Normal (), emit (SetTag ''run_datetime'' (now_isoformat en)) w4))"

definition MlflowLogger_enter ::
    "env \<Rightarrow> mlflow_logger \<Rightarrow> world \<Rightarrow> mlflow_logger outcome \<times> world" where
  "MlflowLogger_enter en self w =
     (let rn = (case self_run_name self of
                  None \<Rightarrow> ''run_'' @ now_strftime en @ ''_'' @ take 6 (uuid4_hex en)
                | Some n \<Rightarrow> n);
          self1 = self\<lparr>self_run_name := Some rn\<rparr>;
          w1 = emit (SetExperiment (self_experiment_name self1)) w;
          w2 = mlflow_start_run en rn w1;
          w3 = emit (Log INFO ''Started MLflow run with name: %s'' [rn]) w2
      in (case active_run_id w3 of
            Inl e \<Rightarrow> (Raised e, w3)
          | Inr run_id \<Rightarrow>
              (case log_metadata en self1 (emit (Log INFO ''Active run ID: %s'' [run_id]) w3) of
                 (Normal u, w4) \<Rightarrow> (Normal self1, w4)
               | (Raised e, w4) \<Rightarrow> (Raised e, w4))))"

text \<open>
  \<open>__exit__\<close>. Its arguments describe the exception in flight, if any; the body does
  not read them. The method has no \<open>return\<close> statement, so it returns \<open>None\<close>.
\<close>

definition MlflowLogger_exit ::
    "mlflow_logger \<Rightarrow> error option \<Rightarrow> world \<Rightarrow> pyval outcome \<times> world" where
  "MlflowLogger_exit self exc w =
     (let w1 = emit (Log INFO ''Result logged to MLflow.'' []) w
      in (case active_run_id w1 of
            Inl e \<Rightarrow> (Raised e, w1)
          | Inr run_id \<Rightarrow>
              (Normal PyNone, mlflow_end_run (emit (Log INFO ''MLflow run ID: %s'' [run_id]) w1))))"

text \<open>Python's truth value of what \<open>__exit__\<close> returned.\<close>

fun truthy :: "pyval \<Rightarrow> bool" where
  "truthy PyNone = False"
| "truthy (PyBool b) = b"
| "truthy (PyInt i) = (i \<noteq> 0)"
| "truthy (PyFloat x) = (x \<noteq> 0)"
| "truthy (PyStr s) = (s \<noteq> [])"
| "truthy (PyList vs) = (vs \<noteq> [])"
| "truthy (PyDict kvs) = (kvs \<noteq> [])"
| "truthy (PyObject c) = True"

text \<open>
  \<open>with logger as handle: body\<close>, as Python runs it: \<open>__exit__\<close> is called when
  \<open>__enter__\<close> returned, however the body ends; an exception of the body is raised
  again unless \<open>__exit__\<close> returns a true value; an exception of \<open>__exit__\<close> replaces
  it.
\<close>

definition with_statement ::
    "env \<Rightarrow> mlflow_logger \<Rightarrow> (mlflow_logger \<Rightarrow> world \<Rightarrow> unit outcome \<times> world) \<Rightarrow> world
       \<Rightarrow> unit outcome \<times> world" where
  "with_statement en self body w =
     (case MlflowLogger_enter en self w of
        (Raised e, w1) \<Rightarrow> (Raised e, w1)
      | (Normal handle, w1) \<Rightarrow>
          (case body handle w1 of
             (Normal u, w2) \<Rightarrow>
               (case MlflowLogger_exit handle None w2 of
                  (Normal r, w3) \<Rightarrow> (Normal (), w3)
                | (Raised e2, w3) \<Rightarrow> (Raised e2, w3))
           | (Raised e, w2) \<Rightarrow>
               (case MlflowLogger_exit handle (Some e) w2 of
                  (Normal r, w3) \<Rightarrow> if truthy r then (Normal (), w3) else (Raised e, w3)
                | (Raised e2, w3) \<Rightarrow> (Raised e2, w3))))"

section \<open>utils/configs.py: YamlBaseSettings.settings\_customise\_sources\<close>

text \<open>The two keys of \<open>model_config\<close> the method reads; \<open>.get\<close> gives \<open>None\<close> for a missing key.\<close>

record model_config =
  yaml_file :: "string option"
  yaml_file_encoding :: "string option"

text \<open>
  A source of settings: one of the four the caller hands in, or the YAML source the
  method builds (settings class, file, encoding).
\<close>

datatype 's settings_source =
    Given 's
  | YamlConfigSettingsSource string string string

text \<open>
  \<open>cls\<close> is given by its \<open>model_config\<close>, \<open>settings_cls\<close> by its name. \<open>if yaml_path:\<close>
  tests the truth value, so an empty string counts as no path.
\<close>

definition settings_customise_sources ::
    "model_config \<Rightarrow> string \<Rightarrow> 's \<Rightarrow> 's \<Rightarrow> 's \<Rightarrow> 's \<Rightarrow> 's settings_source list" where
  "settings_customise_sources cls settings_cls init_settings env_settings dotenv_settings
       file_secret_settings =
     (let sources = [Given init_settings, Given env_settings, Given dotenv_settings,
                     Given file_secret_settings]
      in (case yaml_file cls of
            None \<Rightarrow> sources
          | Some yaml_path \<Rightarrow>
              if yaml_path \<noteq> [] then
                sources @ [YamlConfigSettingsSource settings_cls yaml_path
                             (case yaml_file_encoding cls of
                                None \<Rightarrow> ''utf-8''
                              | Some enc \<Rightarrow> enc)]
              else sources))"

text \<open>
  Modelled from the spec: the merge of the sources into one settings object is done
  by the settings library, which is not among the sources. The spec, section 4.1:
  ``Resolution for a single field: iterate sources in the fixed order above; first
  source defining the key wins''. \<open>provides\<close> gives the key/value pairs of a source.
\<close>

fun resolve ::
    "('s settings_source \<Rightarrow> string \<Rightarrow> 'v option) \<Rightarrow> 's settings_source list \<Rightarrow> string
       \<Rightarrow> 'v option" where
  "resolve provides [] k = None"
| "resolve provides (src # srcs) k =
     (case provides src k of
        Some v \<Rightarrow> Some v
      | None \<Rightarrow> resolve provides srcs k)"

section \<open>utils/configs\_provider.py: BaseConfigProvider\<close>

record global_config =
  log_level :: string

record base_config_provider =
  provider_global_config :: global_config
  provider_mlflow_config :: mlflow_logger_config

text \<open>
  What constructing a settings object gives at this moment: the object, or the
  validation error.
\<close>

record settings_env =
  new_GlobalConfig :: "error + global_config"
  new_MlflowLoggerConfig :: "error + mlflow_logger_config"

text \<open>
  The process: the objects allocated so far (an object's identity is its index), the
  settings classes constructed so far, and the instance the metaclass has cached for
  \<open>BaseConfigProvider\<close>.
\<close>

record process =
  objects :: "base_config_provider list"
  constructed :: "string list"
  cached_instance :: "nat option"

definition BaseConfigProvider_init ::
    "settings_env \<Rightarrow> process \<Rightarrow> base_config_provider outcome \<times> process" where
  "BaseConfigProvider_init se p =
     (let p1 = p\<lparr>constructed := constructed p @ [''GlobalConfig'']\<rparr>
      in (case new_GlobalConfig se of
            Inl e \<Rightarrow> (Raised e, p1)
          | Inr g \<Rightarrow>
              let p2 = p1\<lparr>constructed := constructed p1 @ [''MlflowLoggerConfig'']\<rparr>
              in (case new_MlflowLoggerConfig se of
                    Inl e \<Rightarrow> (Raised e, p2)
                  | Inr m \<Rightarrow>
                      (Normal \<lparr>provider_global_config = g, provider_mlflow_config = m\<rparr>, p2))))"

text \<open>
  Modelled from the spec: \<open>SingletonMeta\<close> (utils/singleton.py) is not among the
  sources. The spec, sections 3, 4.2 and 8: the provider is a ``process-wide singleton
  \<dots> created on first access, never recreated or invalidated during the process
  lifetime''; ``two calls within one process return the identical cached instance'';
  the provider ``does not cache a partial/error state; a subsequent call re-attempts
  construction''. The result is the identity of the instance.
\<close>

definition SingletonMeta_call :: "settings_env \<Rightarrow> process \<Rightarrow> nat outcome \<times> process" where
  "SingletonMeta_call se p =
     (case cached_instance p of
        Some a \<Rightarrow> (Normal a, p)
      | None \<Rightarrow>
          (case BaseConfigProvider_init se p of
             (Raised e, p1) \<Rightarrow> (Raised e, p1)
           | (Normal obj, p1) \<Rightarrow>
               (Normal (length (objects p1)),
                p1\<lparr>objects := objects p1 @ [obj],
                   cached_instance := Some (length (objects p1))\<rparr>)))"

section \<open>Example inputs\<close>

text \<open>
  Concrete files, a filesystem, a configuration and a logger, on which the theorems
  below are evaluated. \<open>dated.json\<close> holds one record whose field pandas reads as a
  Timestamp.
\<close>

definition a_json :: path where
  "a_json = \<lparr>parent_parts = [''results''], stem = ''a'', suffix = ''.json''\<rparr>"

definition dated_json :: path where
  "dated_json = \<lparr>parent_parts = [''results''], stem = ''dated'', suffix = ''.json''\<rparr>"

definition b_csv :: path where
  "b_csv = \<lparr>parent_parts = [''results''], stem = ''b'', suffix = ''.csv''\<rparr>"

definition prompt_jinja2 :: path where
  "prompt_jinja2 = \<lparr>parent_parts = [''templates''], stem = ''prompt'', suffix = ''.jinja2''\<rparr>"

definition x_parquet :: path where
  "x_parquet = \<lparr>parent_parts = [], stem = ''x'', suffix = ''.parquet''\<rparr>"

definition x_txt :: path where
  "x_txt = \<lparr>parent_parts = [], stem = ''x'', suffix = ''.txt''\<rparr>"

definition missing_csv :: path where
  "missing_csv = \<lparr>parent_parts = [], stem = ''missing'', suffix = ''.csv''\<rparr>"

definition example_env :: env where
  "example_env =
     \<lparr>path_exists = (\<lambda>p. stem p \<noteq> ''missing''),
      read_json = (\<lambda>p. if stem p = ''a'' then Inr [[(''accuracy'', PyFloat 0.5), (''model'', PyStr ''tree'')]]
                        else if stem p = ''dated'' then Inr [[(''created_at'', PyObject ''Timestamp'')]]
                        else Inl (OtherError ''ValueError'' ''Expected object or value'')),
      read_csv = (\<lambda>p. Inr [[(''n'', PyInt 1)], [(''n'', PyInt 2)]]),
      read_parquet = (\<lambda>p. Inr [[(''n'', PyInt 1)], [(''n'', PyInt 2)]]),
      read_text = (\<lambda>p. Inr ''Hello {{ name }}''),
      temp_dir = ''/tmp/tmpdir'',
      now_strftime = ''20240101_120000'',
      now_isoformat = ''2024-01-01T12:00:00'',
      uuid4_hex = ''0123456789abcdef0123456789abcdef'',
      new_run_id = ''r1'',
      nodename = ''host'',
      package_version = (\<lambda>n. None),
      git_head = None\<rparr>"

definition example_config :: mlflow_logger_config where
  "example_config =
     \<lparr>tracking_uri = Some ''http://localhost:5000/'',
      remote_tracking_uri = None,
      instance_name = ''dev'',
      remote_flag = False,
      trace = False,
      templates_path = \<lparr>parent_parts = [], stem = ''templates'', suffix = []\<rparr>,
      artifact_path = ''artifacts'',
      run_name = None,
      extras = [(''experiment_name'', ''exp''), (''project_name'', ''proj'')]\<rparr>"

definition example_logger :: mlflow_logger where
  "example_logger =
     \<lparr>self_config = example_config, self_experiment_name = ''exp'', self_run_name = None,
      self_artifact_path = ''artifacts'', self_templates_path = templates_path example_config\<rparr>"

definition idle_world :: world where
  "idle_world = \<lparr>effects = [], active_run = None\<rparr>"

text \<open>A scope body that logs one metric and then raises.\<close>

definition failing_body :: "mlflow_logger \<Rightarrow> world \<Rightarrow> unit outcome \<times> world" where
  "failing_body handle w =
     (case log_dict [(''loss'', PyFloat 0.25)] w of
        (Normal u, w1) \<Rightarrow> (Raised (OtherError ''RuntimeError'' ''boom''), w1)
      | (Raised e, w1) \<Rightarrow> (Raised e, w1))"

text \<open>A scope body that calls \<open>mlflow.end_run()\<close> itself and then raises.\<close>

definition run_ending_body :: "mlflow_logger \<Rightarrow> world \<Rightarrow> unit outcome \<times> world" where
  "run_ending_body handle w = (Raised (OtherError ''RuntimeError'' ''boom''), mlflow_end_run w)"

text \<open>The \<open>model_config\<close> of \<open>GlobalConfig\<close>, and sources of which two define \<open>log_level\<close>.\<close>

definition GlobalConfig_model_config :: model_config where
  "GlobalConfig_model_config =
     \<lparr>yaml_file = Some ''configs/global.yaml'', yaml_file_encoding = Some ''utf-8''\<rparr>"

definition example_provides :: "string settings_source \<Rightarrow> string \<Rightarrow> string option" where
  "example_provides src k =
     (case src of
        Given n \<Rightarrow> if n = ''env'' \<and> k = ''log_level'' then Some ''DEBUG'' else None
      | YamlConfigSettingsSource c y enc \<Rightarrow> if k = ''log_level'' then Some ''INFO'' else None)"

text \<open>Settings that load, and a process that has constructed nothing yet.\<close>

definition example_settings_env :: settings_env where
  "example_settings_env =
     \<lparr>new_GlobalConfig = Inr \<lparr>log_level = ''INFO''\<rparr>,
      new_MlflowLoggerConfig = Inr example_config\<rparr>"

definition fresh_process :: process where
  "fresh_process = \<lparr>objects = [], constructed = [], cached_instance = None\<rparr>"

section \<open>Basic facts\<close>

lemma effects_emit: "effects (emit e w) = effects w @ [e]"
  by (simp add: emit_def)

lemma active_run_emit: "active_run (emit e w) = active_run w"
  by (simp add: emit_def)


lemma log_dict_append:
  "log_dict (pre @ items) w =
     (case log_dict pre w of
        (Normal u, w1) \<Rightarrow> log_dict items w1
      | (Raised e, w1) \<Rightarrow> (Raised e, w1))"
  by (induction pre w rule: log_dict.induct) auto

lemma log_dict_active_run: "active_run (snd (log_dict d w)) = active_run w"
  by (induction d w rule: log_dict.induct) (auto simp: active_run_emit)




lemmas example_defs =
  example_env_def example_logger_def example_config_def idle_world_def
  a_json_def dated_json_def b_csv_def prompt_jinja2_def x_parquet_def x_txt_def missing_csv_def

lemmas eval_defs =
  loop_body_def try_log_table_def log_file_artifact_def log_jinja_templates_def log_input_def
  emit_def str_path_def name_def parent_name_def os_path_join_def lower_def lower_char_def
  Let_def

lemmas enter_defs =
  MlflowLogger_enter_def mlflow_start_run_def active_run_id_def log_metadata_def
  extra_attribute_def emit_def Let_def

text \<open>No operation of the logger starts or ends a run; \<open>__enter__\<close> leaves one active.\<close>

lemma log_jinja_templates_active_run:
  "active_run (snd (log_jinja_templates en self p w)) = active_run w"
  by (simp add: log_jinja_templates_def Let_def active_run_emit split: sum.splits)

lemma try_log_table_active_run:
  "active_run (snd (try_log_table en p w)) = active_run w"
proof (cases "read_json en p")
  case (Inl e)
  then show ?thesis by (simp add: try_log_table_def active_run_emit)
next
  case (Inr df)
  show ?thesis
  proof (cases "\<exists>r. df = [r]")
    case True
    then obtain r where df: "df = [r]" by blast
    have "active_run (snd (log_dict r (emit (LogTable [r] (name p)) w))) = active_run w"
      by (simp add: log_dict_active_run active_run_emit)
    then show ?thesis
      using Inr df
      by (cases "log_dict r (emit (LogTable [r] (name p)) w)")
         (auto simp: try_log_table_def active_run_emit split: outcome.splits)
  next
    case False
    then show ?thesis
      using Inr
      by (cases df) (auto simp: try_log_table_def Let_def active_run_emit split: list.splits)
  qed
qed

lemma loop_body_active_run:
  "active_run (snd (loop_body en self p w)) = active_run w"
  using try_log_table_active_run [of en p w] log_jinja_templates_active_run [of en self p w]
  by (cases "try_log_table en p w"; cases "log_jinja_templates en self p w")
     (auto simp: loop_body_def log_file_artifact_def active_run_emit
        split: bool.splits outcome.splits)

lemma log_experiment_data_active_run:
  "active_run (snd (log_experiment_data en self ps w)) = active_run w"
proof (induction ps arbitrary: w)
  case Nil
  then show ?case by simp
next
  case (Cons p ps)
  show ?case
    using loop_body_active_run [of en self p w] Cons.IH
    by (cases "loop_body en self p w") (auto split: outcome.splits signal.splits)
qed

lemma log_input_active_run:
  "active_run (snd (log_input en p w)) = active_run w"
  by (simp add: log_input_def Let_def active_run_emit split: sum.splits)

lemma enter_active_run:
  "MlflowLogger_enter en self w = (Normal handle, w1) \<Longrightarrow> active_run w1 = Some (new_run_id en)"
  by (auto simp: MlflowLogger_enter_def mlflow_start_run_def active_run_id_def log_metadata_def
      Let_def emit_def split: sum.splits option.splits prod.splits)

section \<open>C1: a single-row JSON file ends the call\<close>




section \<open>C2: the run scope closes the run\<close>

lemma exit_returns_None:
  "fst (MlflowLogger_exit self exc w) = Normal v \<Longrightarrow> v = PyNone"
  by (auto simp: MlflowLogger_exit_def Let_def split: sum.splits)

text \<open>
  C2, as the code has it. Once \<open>__enter__\<close> has returned the handle, however the scope
  body ends (\<open>r\<close> is its outcome, normal or an exception), if a run is still active at
  that point then \<open>__exit__\<close> logs its two lines and calls \<open>mlflow.end_run\<close>: the
  \<open>with\<close> statement ends with the body's own outcome, so an exception of the body
  propagates unchanged, \<open>EndRun\<close> is the last call made and no run is active
  afterwards. Whenever \<open>__exit__\<close> returns, it returns \<open>None\<close>, never a true value, so
  it suppresses no exception.
\<close>

theorem exit_ends_active_run:
  assumes "MlflowLogger_enter en self w = (Normal handle, w1)"
      and "body handle w1 = (r, w2)"
      and "active_run w2 = Some run_id"
  shows "with_statement en self body w =
           (r, mlflow_end_run (emit (Log INFO ''MLflow run ID: %s'' [run_id])
                 (emit (Log INFO ''Result logged to MLflow.'' []) w2))) \<and>
         last (effects (snd (with_statement en self body w))) = EndRun \<and>
         active_run (snd (with_statement en self body w)) = None \<and>
         (\<forall>exc w' v. fst (MlflowLogger_exit handle exc w') = Normal v \<longrightarrow> \<not> truthy v)"
proof -
  have ex: "MlflowLogger_exit handle exc w2 =
      (Normal PyNone, mlflow_end_run (emit (Log INFO ''MLflow run ID: %s'' [run_id])
                 (emit (Log INFO ''Result logged to MLflow.'' []) w2)))" for exc
    using assms(3) by (simp add: MlflowLogger_exit_def active_run_id_def Let_def emit_def)
  have w: "with_statement en self body w =
           (r, mlflow_end_run (emit (Log INFO ''MLflow run ID: %s'' [run_id])
                 (emit (Log INFO ''Result logged to MLflow.'' []) w2)))"
    using assms(1,2) ex by (cases r) (simp_all add: with_statement_def)
  have n: "\<not> truthy v" if "fst (MlflowLogger_exit handle exc w') = Normal v" for exc w' v
    using exit_returns_None [OF that] by simp
  show ?thesis
    using w n by (simp add: mlflow_end_run_def emit_def)
qed

text \<open>A body that logs a metric and raises \<open>RuntimeError\<close>: the run is ended, the error is raised.\<close>

theorem exit_ends_active_run_witness:
  "with_statement example_env example_logger failing_body idle_world =
     (Raised (OtherError ''RuntimeError'' ''boom''),
      \<lparr>effects =
         [SetExperiment ''exp'', StartRun ''run_20240101_120000_012345'',
          Log INFO ''Started MLflow run with name: %s'' [''run_20240101_120000_012345''],
          Log INFO ''Active run ID: %s'' [''r1''],
          SetTag ''project_name'' ''proj'', SetTag ''run_host'' ''host'',
          SetTag ''run_datetime'' ''2024-01-01T12:00:00'',
          LogMetric ''loss'' (PyFloat 0.25),
          Log INFO ''Result logged to MLflow.'' [],
          Log INFO ''MLflow run ID: %s'' [''r1''], EndRun],
       active_run = None\<rparr>)"
proof -
  let ?w1 = "\<lparr>effects =
         [SetExperiment ''exp'', StartRun ''run_20240101_120000_012345'',
          Log INFO ''Started MLflow run with name: %s'' [''run_20240101_120000_012345''],
          Log INFO ''Active run ID: %s'' [''r1''],
          SetTag ''project_name'' ''proj'', SetTag ''run_host'' ''host'',
          SetTag ''run_datetime'' ''2024-01-01T12:00:00''],
       active_run = Some ''r1''\<rparr>"
  let ?h = "example_logger\<lparr>self_run_name := Some ''run_20240101_120000_012345''\<rparr>"
  have e: "MlflowLogger_enter example_env example_logger idle_world = (Normal ?h, ?w1)"
    by (simp add: example_defs enter_defs)
  have b: "failing_body ?h ?w1 =
      (Raised (OtherError ''RuntimeError'' ''boom''),
       ?w1\<lparr>effects := effects ?w1 @ [LogMetric ''loss'' (PyFloat 0.25)]\<rparr>)"
    by (simp add: failing_body_def emit_def)
  show ?thesis
    using exit_ends_active_run [where body = failing_body and run_id = "''r1''", OF e b]
    by (simp add: mlflow_end_run_def emit_def)
qed

text \<open>
  \<open>__exit__\<close> reads \<open>mlflow.active_run().info\<close> before it calls \<open>end_run\<close>, so it
  relies on a run being active. The logger's own operations keep the run active (see
  the basic facts); with no run active \<open>__exit__\<close> raises before it reaches \<open>end_run\<close>.
\<close>

lemma exit_without_active_run:
  "active_run w = None \<Longrightarrow>
     MlflowLogger_exit self exc w =
       (Raised (AttributeError ''NoneType object has no attribute info''),
        emit (Log INFO ''Result logged to MLflow.'' []) w)"
  by (simp add: MlflowLogger_exit_def active_run_id_def Let_def emit_def)

text \<open>
  C2 as stated fails: a body that ends the run itself and raises \<open>RuntimeError\<close>.
  \<open>__exit__\<close> raises \<open>AttributeError\<close>, which replaces the body's exception, and makes
  no call of \<open>end_run\<close>: the only \<open>EndRun\<close> is the body's, and the last call is the log
  line of \<open>__exit__\<close>.
\<close>

theorem run_ended_by_body_counterexample:
  "with_statement example_env example_logger run_ending_body idle_world =
     (Raised (AttributeError ''NoneType object has no attribute info''),
      \<lparr>effects =
         [SetExperiment ''exp'', StartRun ''run_20240101_120000_012345'',
          Log INFO ''Started MLflow run with name: %s'' [''run_20240101_120000_012345''],
          Log INFO ''Active run ID: %s'' [''r1''],
          SetTag ''project_name'' ''proj'', SetTag ''run_host'' ''host'',
          SetTag ''run_datetime'' ''2024-01-01T12:00:00'',
          EndRun,
          Log INFO ''Result logged to MLflow.'' []],
       active_run = None\<rparr>)"
  by (simp add: with_statement_def example_defs enter_defs run_ending_body_def
      mlflow_end_run_def MlflowLogger_exit_def)

section \<open>C3: the order of the settings sources\<close>

lemma resolve_first_defined:
  "list_all (\<lambda>s. provides s k = None) earlier \<Longrightarrow> provides src k = Some v \<Longrightarrow>
     resolve provides (earlier @ src # later) k = Some v"
  by (induction earlier) simp_all

text \<open>
  C3. \<open>settings_customise_sources\<close> returns the four given sources in the order init,
  environment, dotenv, file secrets, followed by a YAML source exactly when
  \<open>model_config\<close> holds a \<open>yaml_file\<close> that is a non-empty path; the YAML source is then
  last. For a key, the first source of the returned list that defines it supplies the
  value (the resolution is the one the spec describes).
\<close>

theorem settings_sources_precedence:
  "settings_customise_sources cls settings_cls i e d f =
     [Given i, Given e, Given d, Given f] @
     (case yaml_file cls of
        None \<Rightarrow> []
      | Some yaml_path \<Rightarrow>
          if yaml_path \<noteq> [] then
            [YamlConfigSettingsSource settings_cls yaml_path
               (case yaml_file_encoding cls of None \<Rightarrow> ''utf-8'' | Some enc \<Rightarrow> enc)]
          else []) \<and>
   ((\<exists>y enc. YamlConfigSettingsSource settings_cls y enc
        \<in> set (settings_customise_sources cls settings_cls i e d f))
      \<longleftrightarrow> (\<exists>y. yaml_file cls = Some y \<and> y \<noteq> [])) \<and>
   (settings_customise_sources cls settings_cls i e d f = earlier @ src # later \<and>
    list_all (\<lambda>s. provides s k = None) earlier \<and> provides src k = Some v \<longrightarrow>
      resolve provides (settings_customise_sources cls settings_cls i e d f) k = Some v)"
proof -
  have a: "settings_customise_sources cls settings_cls i e d f =
     [Given i, Given e, Given d, Given f] @
     (case yaml_file cls of
        None \<Rightarrow> []
      | Some yaml_path \<Rightarrow>
          if yaml_path \<noteq> [] then
            [YamlConfigSettingsSource settings_cls yaml_path
               (case yaml_file_encoding cls of None \<Rightarrow> ''utf-8'' | Some enc \<Rightarrow> enc)]
          else [])"
    by (simp add: settings_customise_sources_def Let_def split: option.splits)
  have b: "(\<exists>y enc. YamlConfigSettingsSource settings_cls y enc
        \<in> set (settings_customise_sources cls settings_cls i e d f))
      \<longleftrightarrow> (\<exists>y. yaml_file cls = Some y \<and> y \<noteq> [])"
    unfolding a by (cases "yaml_file cls") auto
  have c: "resolve provides (settings_customise_sources cls settings_cls i e d f) k = Some v"
    if "settings_customise_sources cls settings_cls i e d f = earlier @ src # later"
      and "list_all (\<lambda>s. provides s k = None) earlier" and "provides src k = Some v"
    using that resolve_first_defined [of provides k earlier src v later] by simp
  show ?thesis
    using a b c by blast
qed

text \<open>\<open>GlobalConfig\<close>: the environment's \<open>log_level\<close> wins over the YAML file's.\<close>

theorem settings_sources_precedence_witness:
  "settings_customise_sources GlobalConfig_model_config ''GlobalConfig''
       ''init'' ''env'' ''dotenv'' ''secrets'' =
     [Given ''init'', Given ''env'', Given ''dotenv'', Given ''secrets'',
      YamlConfigSettingsSource ''GlobalConfig'' ''configs/global.yaml'' ''utf-8''] \<and>
   resolve example_provides
     (settings_customise_sources GlobalConfig_model_config ''GlobalConfig''
        ''init'' ''env'' ''dotenv'' ''secrets'') ''log_level'' = Some ''DEBUG''"
  using settings_sources_precedence
    [where cls = GlobalConfig_model_config and settings_cls = "''GlobalConfig''"
       and i = "''init''" and e = "''env''" and d = "''dotenv''" and f = "''secrets''"
       and earlier = "[Given ''init'']" and src = "Given ''env''"
       and later = "[Given ''dotenv'', Given ''secrets'',
                     YamlConfigSettingsSource ''GlobalConfig'' ''configs/global.yaml'' ''utf-8'']"
       and provides = example_provides and k = "''log_level''" and v = "''DEBUG''"]
  by (simp add: GlobalConfig_model_config_def example_provides_def)

section \<open>C4: log\_input\<close>

text \<open>
  C4. \<open>log_input\<close> raises \<open>FileNotFoundError\<close> when the path does not exist, and does
  nothing else. When the path exists and its lowercased suffix is none of \<open>.json\<close>,
  \<open>.csv\<close>, \<open>.parquet\<close>, it raises \<open>ValueError\<close> with a message that names that suffix.
  When the path exists, has one of the three suffixes and the matching pandas reader
  returns a table, it records an input dataset of that table whose name is the stem of
  the path and whose source is the path.
\<close>

theorem log_input_cases:
  "(\<not> path_exists en p \<longrightarrow>
      log_input en p w =
        (Raised (FileNotFoundError (''The input path '' @ str_path p @ '' does not exist.'')), w)) \<and>
   (path_exists en p \<and> lower (suffix p) \<noteq> ''.json'' \<and> lower (suffix p) \<noteq> ''.csv''
      \<and> lower (suffix p) \<noteq> ''.parquet'' \<longrightarrow>
      log_input en p w =
        (Raised (ValueError (''Unsupported file format: '' @ lower (suffix p)
                   @ ''. Only .json, .csv, and .parquet are supported.'')),
         emit (Log INFO ''Loading input data from %s'' [str_path p]) w)) \<and>
   (path_exists en p \<and>
      (lower (suffix p) = ''.json'' \<and> read_json en p = Inr t
       \<or> lower (suffix p) = ''.csv'' \<and> read_csv en p = Inr t
       \<or> lower (suffix p) = ''.parquet'' \<and> read_parquet en p = Inr t) \<longrightarrow>
      log_input en p w =
        (Normal (),
         emit (LogInput \<lparr>ds_data = t, ds_source = str_path p, ds_name = stem p\<rparr>)
           (emit (Log INFO ''Loading input data from %s'' [str_path p]) w)))"
  by (auto simp: log_input_def Let_def)

text \<open>\<open>missing.csv\<close>, \<open>x.txt\<close> and \<open>x.parquet\<close>.\<close>

theorem log_input_cases_witness:
  "log_input example_env missing_csv idle_world =
     (Raised (FileNotFoundError ''The input path missing.csv does not exist.''), idle_world) \<and>
   log_input example_env x_txt idle_world =
     (Raised (ValueError
        ''Unsupported file format: .txt. Only .json, .csv, and .parquet are supported.''),
      \<lparr>effects = [Log INFO ''Loading input data from %s'' [''x.txt'']], active_run = None\<rparr>) \<and>
   log_input example_env x_parquet idle_world =
     (Normal (),
      \<lparr>effects =
         [Log INFO ''Loading input data from %s'' [''x.parquet''],
          LogInput \<lparr>ds_data = [[(''n'', PyInt 1)], [(''n'', PyInt 2)]],
                    ds_source = ''x.parquet'', ds_name = ''x''\<rparr>],
       active_run = None\<rparr>)"
  using log_input_cases [where en = example_env and p = missing_csv and w = idle_world]
    log_input_cases [where en = example_env and p = x_txt and w = idle_world]
    log_input_cases [where en = example_env and p = x_parquet and w = idle_world
      and t = "[[(''n'', PyInt 1)], [(''n'', PyInt 2)]]"]
  by (simp add: example_defs emit_def str_path_def name_def lower_def lower_char_def)

section \<open>C5: log\_dict and the active run\<close>




section \<open>C6: the tracking endpoint at construction\<close>

text \<open>
  C6, as the code has it. The endpoint is \<open>remote_tracking_uri\<close> when \<open>remote_flag\<close> is
  true and \<open>tracking_uri\<close> otherwise. When that URL is \<open>None\<close>, construction fails with
  the \<open>AttributeError\<close> of reading an attribute of \<open>None\<close> (the code has no
  \<open>ConfigurationError\<close>), and no call on the tracking SDK has been made. When it is
  a URL and the configuration carries an \<open>experiment_name\<close>, construction returns the
  logger, having set that URL as the tracking URI and enabled asynchronous logging.
\<close>

theorem tracking_endpoint_resolution:
  "((if remote_flag cfg then remote_tracking_uri cfg else tracking_uri cfg) = None \<longrightarrow>
      raised_kind (fst (MlflowLogger_init cfg w)) = Some ''AttributeError'' \<and>
      list_all (\<lambda>e. e = LoadDotenv) (drop (length (effects w)) (effects (snd (MlflowLogger_init cfg w))))) \<and>
   ((if remote_flag cfg then remote_tracking_uri cfg else tracking_uri cfg) = Some uri \<and>
    map_of (extras cfg) ''experiment_name'' = Some exp_name \<longrightarrow>
      fst (MlflowLogger_init cfg w) =
        Normal \<lparr>self_config = cfg, self_experiment_name = exp_name,
                self_run_name = run_name cfg, self_artifact_path = artifact_path cfg,
                self_templates_path = templates_path cfg\<rparr> \<and>
      effects (snd (MlflowLogger_init cfg w)) =
        effects w @
        [LoadDotenv,
         Log INFO (if remote_flag cfg then ''Using remote MLflow tracking URI: %s''
                   else ''Using local MLflow tracking URI: %s'') [uri],
         SetTrackingUri uri, EnableAsyncLogging] @
        (if trace cfg then [OpenaiAutolog, Log INFO ''MLflow OpenAI autologging enabled.'' []]
         else []) @
        [Log INFO ''MLflow logging enabled with async mode on %s''
           [str_optional (tracking_uri cfg)]])"
  by (auto simp: MlflowLogger_init_def MlflowLogger_setup_def extra_attribute_def
      unicode_string_def emit_def Let_def split: option.splits)

text \<open>The example configuration with \<open>remote_flag\<close> set (no remote URL), and as it is.\<close>

theorem tracking_endpoint_resolution_witness:
  "raised_kind (fst (MlflowLogger_init (example_config\<lparr>remote_flag := True\<rparr>) idle_world)) =
     Some ''AttributeError'' \<and>
   effects (snd (MlflowLogger_init example_config idle_world)) =
     [LoadDotenv,
      Log INFO ''Using local MLflow tracking URI: %s'' [''http://localhost:5000/''],
      SetTrackingUri ''http://localhost:5000/'', EnableAsyncLogging,
      Log INFO ''MLflow logging enabled with async mode on %s'' [''http://localhost:5000/'']]"
  using tracking_endpoint_resolution
      [where cfg = "example_config\<lparr>remote_flag := True\<rparr>" and w = idle_world]
    tracking_endpoint_resolution
      [where cfg = example_config and w = idle_world and uri = "''http://localhost:5000/''"
         and exp_name = "''exp''"]
  by (simp add: example_defs str_optional_def)

text \<open>C6 as stated fails: the error raised for a missing URL is an \<open>AttributeError\<close>.\<close>

theorem missing_tracking_url_counterexample:
  "remote_flag (example_config\<lparr>remote_flag := True\<rparr>) \<and>
   remote_tracking_uri (example_config\<lparr>remote_flag := True\<rparr>) = None \<and>
   MlflowLogger_init (example_config\<lparr>remote_flag := True\<rparr>) idle_world =
     (Raised (AttributeError ''NoneType object has no attribute unicode_string''),
      \<lparr>effects = [LoadDotenv], active_run = None\<rparr>) \<and>
   raised_kind (fst (MlflowLogger_init (example_config\<lparr>remote_flag := True\<rparr>) idle_world))
     \<noteq> Some ''ConfigurationError''"
  by (simp add: example_defs MlflowLogger_init_def MlflowLogger_setup_def extra_attribute_def
      unicode_string_def emit_def Let_def)

section \<open>C7: a template file\<close>

text \<open>
  C7. The template \<open>templates/prompt.jinja2\<close> is written unchanged to a text file,
  which is logged as an artifact, and it is not logged as a plain artifact. But the
  branch is \<open>return self._log_jinja_templates(data_path)\<close>: the method returns, and
  \<open>results/b.csv\<close>, which exists and comes next in the list, is never logged, although
  the call on \<open>b.csv\<close> alone logs it.
\<close>

theorem jinja_template_ends_the_call:
  "path_exists example_env prompt_jinja2 \<and> path_exists example_env b_csv \<and>
   log_experiment_data example_env example_logger [prompt_jinja2, b_csv] idle_world =
     (Normal (),
      \<lparr>effects =
         [Log INFO ''Logging template from: %s'' [''templates/prompt.jinja2''],
          MakeTempDir ''/tmp/tmpdir'',
          WriteText ''/tmp/tmpdir/prompt.jinja2.txt'' ''Hello {{ name }}'',
          LogArtifact ''/tmp/tmpdir/prompt.jinja2.txt'' ''artifacts/templates'',
          RemoveTempDir ''/tmp/tmpdir''],
       active_run = None\<rparr>) \<and>
   log_experiment_data example_env example_logger [b_csv] idle_world =
     (Normal (),
      \<lparr>effects =
         [LogArtifact ''results/b.csv'' ''artifacts/results'',
          Log INFO ''Logged artifact: %s'' [''results/b.csv'']],
       active_run = None\<rparr>)"
  by (simp add: example_defs eval_defs)

section \<open>C8: a path that does not exist\<close>





section \<open>C9: the configuration provider is a singleton\<close>

text \<open>
  C9. When constructing the provider returns an instance, constructing it again, even
  with different settings on disk, returns the identical instance and changes nothing:
  no settings object is constructed again. If no instance was cached before, the
  instance is a new object that holds the \<open>GlobalConfig\<close> and the \<open>MlflowLoggerConfig\<close>
  constructed at that first call.
\<close>

theorem provider_is_singleton:
  assumes "SingletonMeta_call se p = (Normal a, p1)"
  shows "SingletonMeta_call se2 p1 = (Normal a, p1) \<and>
         cached_instance p1 = Some a \<and>
         (cached_instance p = None \<longrightarrow>
            a = length (objects p) \<and>
            objects p1 = objects p @ [objects p1 ! a] \<and>
            new_GlobalConfig se = Inr (provider_global_config (objects p1 ! a)) \<and>
            new_MlflowLoggerConfig se = Inr (provider_mlflow_config (objects p1 ! a)) \<and>
            constructed p1 = constructed p @ [''GlobalConfig'', ''MlflowLoggerConfig''])"
  using assms
  by (auto simp: SingletonMeta_call_def BaseConfigProvider_init_def Let_def
      split: option.splits sum.splits)

text \<open>A fresh process; at the second call \<open>GlobalConfig()\<close> would fail, and is not called.\<close>

theorem provider_is_singleton_witness:
  "SingletonMeta_call example_settings_env fresh_process =
     (Normal 0,
      \<lparr>objects = [\<lparr>provider_global_config = \<lparr>log_level = ''INFO''\<rparr>,
                   provider_mlflow_config = example_config\<rparr>],
       constructed = [''GlobalConfig'', ''MlflowLoggerConfig''],
       cached_instance = Some 0\<rparr>) \<and>
   SingletonMeta_call
     \<lparr>new_GlobalConfig = Inl (OtherError ''ValidationError'' ''log_level: field required''),
      new_MlflowLoggerConfig = Inr example_config\<rparr>
     (snd (SingletonMeta_call example_settings_env fresh_process)) =
     (Normal 0, snd (SingletonMeta_call example_settings_env fresh_process))"
proof -
  have first: "SingletonMeta_call example_settings_env fresh_process =
     (Normal 0,
      \<lparr>objects = [\<lparr>provider_global_config = \<lparr>log_level = ''INFO''\<rparr>,
                   provider_mlflow_config = example_config\<rparr>],
       constructed = [''GlobalConfig'', ''MlflowLoggerConfig''],
       cached_instance = Some 0\<rparr>)"
    by (simp add: SingletonMeta_call_def BaseConfigProvider_init_def Let_def
        example_settings_env_def fresh_process_def)
  show ?thesis
    using provider_is_singleton [OF first] first by simp
qed

section \<open>C10: booleans are logged as metrics\<close>

text \<open>
  C10. Wherever an entry with a boolean value stands in the dictionary, when the loop
  of \<open>log_dict\<close> reaches it (the entries before it raised nothing) it is recorded with
  \<open>log_metric\<close>, not \<open>log_param\<close>, and the loop goes on: \<open>isinstance(value, (int, float))\<close>
  holds for a \<open>bool\<close> and is the first test.
\<close>

theorem log_dict_bool_is_metric:
  "log_dict (pre @ (key, PyBool b) # items) w =
     (case log_dict pre w of
        (Normal u, w1) \<Rightarrow> log_dict items (emit (LogMetric key (PyBool b)) w1)
      | (Raised e, w1) \<Rightarrow> (Raised e, w1))"
  by (simp add: log_dict_append split: prod.splits outcome.splits)

text \<open>A boolean after a string.\<close>

theorem log_dict_bool_is_metric_witness:
  "log_dict [(''model'', PyStr ''tree''), (''converged'', PyBool True)] idle_world =
     (Normal (),
      \<lparr>effects = [LogParam ''model'' (Plain (PyStr ''tree'')),
                  LogMetric ''converged'' (PyBool True)],
       active_run = None\<rparr>)"
  using log_dict_bool_is_metric
    [where pre = "[(''model'', PyStr ''tree'')]" and key = "''converged''" and b = True
       and items = "[]" and w = idle_world]
  by (simp add: idle_world_def emit_def)

end
